theory Spec2Isabelle
  imports Complex_Main "HOL-Library.Multiset"
begin

section \<open>Data model\<close>

text \<open>
  The repository holds two implementations of timeline assembly and EDL export: the
  Cloud Functions \<^verbatim>\<open>autoAssembleTimeline\<close> / \<^verbatim>\<open>exportTimelineEDL\<close> /
  \<^verbatim>\<open>generateCMX3600EDL\<close>, and the methods of the client class \<^verbatim>\<open>Timeline\<close>
  (\<^verbatim>\<open>autoAssemble\<close>, \<^verbatim>\<open>exportEDL\<close>, \<^verbatim>\<open>_generateCMX3600EDL\<close>, \<^verbatim>\<open>addClip\<close>).
  Both are embedded; where a name exists twice, the Cloud Function keeps its own name and
  the helper it shares a name with is suffixed \<open>_fn\<close>.

  JavaScript numbers are idealised as real numbers: rounding, \<^verbatim>\<open>NaN\<close> and the
  infinities are not represented. A property that may be \<^verbatim>\<open>undefined\<close> is an
  \<open>option\<close>. An object used as a dictionary is an association list in insertion order.
\<close>

text \<open>
  \<^verbatim>\<open>asset.metadata\<close>: \<open>duration\<close> is a number or missing; \<open>timestamp\<close> is the time value
  (milliseconds) that \<^verbatim>\<open>new Date(metadata.timestamp)\<close> yields, or missing; \<open>tags\<close> holds
  the string-valued descriptive properties (\<^verbatim>\<open>scene\<close>, \<^verbatim>\<open>name\<close>, ...), the ones a
  \<^verbatim>\<open>groupBy\<close> key selects; \<open>analysis\<close> is the nested object written by the content
  analysis, or missing.
\<close>

record asset_metadata =
  duration :: "real option"
  timestamp :: "int option"
  tags :: "(string \<times> string) list"
  analysis :: "(string \<times> string) list option"

record asset =
  asset_id :: string
  uploadTime :: "int option"
  metadata :: asset_metadata

record transition =
  trans_type :: string
  trans_duration :: real

record transitions =
  trans_in :: "transition option"
  trans_out :: "transition option"

record clip =
  clip_id :: string
  assetId :: string
  startTime :: real
  endTime :: real
  inPoint :: real
  outPoint :: real
  clip_transitions :: transitions

text \<open>
  A track read back from the store may lack its \<^verbatim>\<open>clips\<close> property, and a timeline its
  \<^verbatim>\<open>tracks\<close> property; both are therefore optional.
\<close>

record track =
  track_id :: string
  track_type :: string
  clips :: "clip list option"

record timeline =
  timeline_name :: string
  framerate :: real
  timeline_duration :: real
  tracks :: "track list option"

record options =
  strategy :: "string option"
  groupBy :: "string option"
  addTransitions :: bool

text \<open>
  Everything the code can throw. A \<^verbatim>\<open>TypeError\<close> carries no message here: its text is
  chosen by the JavaScript engine.
\<close>

datatype js_error =
    HttpsError string "string option"
  | Error string
  | TypeError

text \<open>What \<^verbatim>\<open>autoAssemble\<close> returns: \<^verbatim>\<open>{success: false, message}\<close> or
  \<^verbatim>\<open>{success: true, tracks, duration}\<close>; the same \<open>tracks\<close> and \<open>duration\<close> are written
  to the stored timeline.\<close>

datatype assemble_result =
    Failure string
  | Assembled "track list" real

text \<open>The \<^verbatim>\<open>catch\<close> block of both Cloud Functions: whatever was thrown inside
  \<^verbatim>\<open>try\<close> is thrown again as \<^verbatim>\<open>HttpsError('internal', error.message)\<close>.\<close>

fun error_message :: "js_error \<Rightarrow> string option" where
  "error_message (HttpsError code msg) = msg"
| "error_message (Error msg) = Some msg"
| "error_message TypeError = None"

definition catch_internal :: "js_error + 'a \<Rightarrow> js_error + 'a" where
  "catch_internal r =
     (case r of Inl e \<Rightarrow> Inl (HttpsError ''internal'' (error_message e)) | Inr v \<Rightarrow> Inr v)"

section \<open>Ordering\<close>

text \<open>
  \<^verbatim>\<open>Array.prototype.sort\<close> with a comparator: a stable sort; a comparator result of
  \<^verbatim>\<open>NaN\<close> (here \<open>None\<close>) counts as 0. The insertion sort below is that sort whenever
  the comparator is consistent (for an inconsistent one JavaScript leaves the order to the
  engine).
\<close>

fun insert_cmp :: "('a \<Rightarrow> 'a \<Rightarrow> int option) \<Rightarrow> 'a \<Rightarrow> 'a list \<Rightarrow> 'a list" where
  "insert_cmp cmp x [] = [x]"
| "insert_cmp cmp x (y # ys) =
     (if (case cmp x y of None \<Rightarrow> 0 | Some v \<Rightarrow> v) \<le> 0 then x # y # ys
      else y # insert_cmp cmp x ys)"

definition js_sort :: "('a \<Rightarrow> 'a \<Rightarrow> int option) \<Rightarrow> 'a list \<Rightarrow> 'a list" where
  "js_sort cmp xs = foldr (insert_cmp cmp) xs []"

text \<open>\<^verbatim>\<open>aTime - bTime\<close> on two dates; an invalid date makes the difference \<^verbatim>\<open>NaN\<close>.\<close>

fun date_diff :: "int option \<Rightarrow> int option \<Rightarrow> int option" where
  "date_diff (Some a) (Some b) = Some (a - b)"
| "date_diff _ _ = None"

text \<open>Cloud Function: \<^verbatim>\<open>a.metadata.timestamp ? new Date(a.metadata.timestamp) : new Date(a.uploadTime)\<close>.\<close>

definition assetTime_fn :: "asset \<Rightarrow> int option" where
  "assetTime_fn a =
     (case timestamp (metadata a) of Some t \<Rightarrow> Some t | None \<Rightarrow> uploadTime a)"

text \<open>Class: \<^verbatim>\<open>new Date(a.metadata.timestamp)\<close>.\<close>

definition assetTime :: "asset \<Rightarrow> int option" where
  "assetTime a = timestamp (metadata a)"

text \<open>The \<^verbatim>\<open>switch (strategy)\<close> of both implementations, given the date each reads.\<close>

definition sortAssets :: "(asset \<Rightarrow> int option) \<Rightarrow> string option \<Rightarrow> asset list \<Rightarrow> asset list" where
  "sortAssets time strat assets =
     (if strat = Some ''chronological''
        then js_sort (\<lambda>a b. date_diff (time a) (time b)) assets
      else if strat = Some ''semantic'' then assets
      else assets)"

section \<open>Grouping\<close>

text \<open>\<^verbatim>\<open>v || d\<close> for a string-or-undefined \<open>v\<close>: the empty string is falsy.\<close>

fun js_or :: "string option \<Rightarrow> string \<Rightarrow> string" where
  "js_or None d = d"
| "js_or (Some s) d = (if s = [] then d else s)"

text \<open>Class: \<^verbatim>\<open>asset.metadata[groupBy] || 'unknown'\<close>.\<close>

definition groupKey :: "string \<Rightarrow> asset \<Rightarrow> string" where
  "groupKey g a = js_or (map_of (tags (metadata a)) g) ''unknown''"

text \<open>Cloud Function: \<open>groupKey\<close> starts as \<^verbatim>\<open>'unknown'\<close> and is overwritten by
  \<^verbatim>\<open>asset.metadata[groupBy]\<close> if that is truthy, else by
  \<^verbatim>\<open>asset.metadata.analysis[groupBy]\<close> if \<open>analysis\<close> and that are truthy.\<close>

definition groupKey_fn :: "string \<Rightarrow> asset \<Rightarrow> string" where
  "groupKey_fn g a =
     (let fromAnalysis =
            (case analysis (metadata a) of
               None \<Rightarrow> ''unknown''
             | Some an \<Rightarrow>
                 (case map_of an g of
                    None \<Rightarrow> ''unknown''
                  | Some w \<Rightarrow> if w \<noteq> [] then w else ''unknown''))
      in case map_of (tags (metadata a)) g of
           None \<Rightarrow> fromAnalysis
         | Some v \<Rightarrow> if v \<noteq> [] then v else fromAnalysis)"

text \<open>
  \<^verbatim>\<open>groups\<close> is a plain object \<^verbatim>\<open>{}\<close>. Reading \<^verbatim>\<open>groups[k]\<close> for a name that
  \<^verbatim>\<open>Object.prototype\<close> defines yields the inherited (truthy) value, so no array is
  created and \<^verbatim>\<open>groups[k].push(asset)\<close> throws a \<^verbatim>\<open>TypeError\<close>.
\<close>

definition object_prototype_keys :: "string list" where
  "object_prototype_keys =
     [''constructor'', ''hasOwnProperty'', ''isPrototypeOf'', ''propertyIsEnumerable'',
      ''toLocaleString'', ''toString'', ''valueOf'', ''__proto__'',
      ''__defineGetter__'', ''__defineSetter__'', ''__lookupGetter__'', ''__lookupSetter__'']"

fun pushTo :: "string \<Rightarrow> 'a \<Rightarrow> (string \<times> 'a list) list \<Rightarrow> (string \<times> 'a list) list" where
  "pushTo k a [] = [(k, [a])]"
| "pushTo k a ((k', as) # g) =
     (if k' = k then (k', as @ [a]) # g else (k', as) # pushTo k a g)"

fun groupLoop ::
  "('a \<Rightarrow> string) \<Rightarrow> 'a list \<Rightarrow> (string \<times> 'a list) list \<Rightarrow> js_error + (string \<times> 'a list) list" where
  "groupLoop key [] groups = Inr groups"
| "groupLoop key (a # as) groups =
     (if key a \<in> set object_prototype_keys then Inl TypeError
      else groupLoop key as (pushTo (key a) a groups))"

text \<open>
  \<^verbatim>\<open>Object.values\<close> lists the own properties in the order of the language: first the
  keys that are array indices (canonical decimal numerals up to \<open>2^32 - 2\<close>) in ascending
  numeric order, then all other string keys in the order of their creation.
\<close>

definition is_digit :: "char \<Rightarrow> bool" where
  "is_digit c = (c \<in> set ''0123456789'')"

definition digit_value :: "char \<Rightarrow> nat" where
  "digit_value c = of_char c - 48"

definition decimal_value :: "string \<Rightarrow> nat" where
  "decimal_value s = foldl (\<lambda>n c. 10 * n + digit_value c) 0 s"

definition array_index :: "string \<Rightarrow> nat option" where
  "array_index s =
     (case s of
        [] \<Rightarrow> None
      | c # cs \<Rightarrow>
          if list_all is_digit s \<and> (c \<noteq> CHR ''0'' \<or> cs = []) \<and> decimal_value s \<le> 4294967294
          then Some (decimal_value s) else None)"

definition index_of_key :: "string \<times> 'a \<Rightarrow> nat" where
  "index_of_key p = (case array_index (fst p) of None \<Rightarrow> 0 | Some i \<Rightarrow> i)"

definition objectValues :: "(string \<times> 'a) list \<Rightarrow> 'a list" where
  "objectValues obj =
     map snd (sort_key index_of_key (filter (\<lambda>p. array_index (fst p) \<noteq> None) obj))
     @ map snd (filter (\<lambda>p. array_index (fst p) = None) obj)"

text \<open>The grouping step: \<^verbatim>\<open>if (groupBy) { ... Object.values(groups).flat() }\<close>, for
  the key lookup of either implementation.\<close>

definition groupAssets ::
  "(string \<Rightarrow> 'a \<Rightarrow> string) \<Rightarrow> string option \<Rightarrow> 'a list \<Rightarrow> js_error + 'a list" where
  "groupAssets key gb sortedAssets =
     (case gb of
        None \<Rightarrow> Inr sortedAssets
      | Some g \<Rightarrow>
          if g = [] then Inr sortedAssets
          else (case groupLoop (key g) sortedAssets [] of
                  Inl e \<Rightarrow> Inl e
                | Inr groups \<Rightarrow> Inr (concat (objectValues groups))))"

section \<open>Clip placement and transitions\<close>

text \<open>\<^verbatim>\<open>asset.metadata.duration || 5\<close>: a missing duration and the number 0 are falsy.\<close>

definition clipDuration :: "asset \<Rightarrow> real" where
  "clipDuration a =
     (case duration (metadata a) of None \<Rightarrow> 5 | Some d \<Rightarrow> if d \<noteq> 0 then d else 5)"

text \<open>The duration of the dissolve: the Cloud Function computes
  \<^verbatim>\<open>Math.min(1.0, clipDuration / 4)\<close>, the class writes the constant \<^verbatim>\<open>1.0\<close>.\<close>

definition transitionDuration_fn :: "real \<Rightarrow> real" where
  "transitionDuration_fn d = min 1 (d / 4)"

definition transitionDuration :: "real \<Rightarrow> real" where
  "transitionDuration d = 1"

text \<open>
  The clip built in one turn of the placement loop, at \<open>currentTime\<close> with \<open>n\<close> clips
  already on the track (\<^verbatim>\<open>tracks[0].clips.length\<close>). The clip identifier is made from
  the clock and a random number; here \<open>newId\<close> supplies it, indexed by \<open>n\<close>.
\<close>

definition makeClip ::
  "(real \<Rightarrow> real) \<Rightarrow> bool \<Rightarrow> (nat \<Rightarrow> string) \<Rightarrow> real \<Rightarrow> nat \<Rightarrow> asset \<Rightarrow> clip" where
  "makeClip transDur addTr newId currentTime n a =
     (let d = clipDuration a;
          c = \<lparr>clip_id = newId n, assetId = asset_id a,
               startTime = currentTime, endTime = currentTime + d,
               inPoint = 0, outPoint = d,
               clip_transitions = \<lparr>trans_in = None, trans_out = None\<rparr>\<rparr>
      in if addTr \<and> n > 0
         then c\<lparr>clip_transitions := (clip_transitions c)
                  \<lparr>trans_in := Some \<lparr>trans_type = ''dissolve'', trans_duration = transDur d\<rparr>\<rparr>\<rparr>
         else c)"

text \<open>One turn of the loop, on the state \<open>(currentTime, tracks[0].clips)\<close>.\<close>

definition placeClip ::
  "(real \<Rightarrow> real) \<Rightarrow> bool \<Rightarrow> (nat \<Rightarrow> string) \<Rightarrow> real \<times> clip list \<Rightarrow> asset \<Rightarrow> real \<times> clip list" where
  "placeClip transDur addTr newId st a =
     (fst st + clipDuration a,
      snd st @ [makeClip transDur addTr newId (fst st) (length (snd st)) a])"

definition placeClips ::
  "(real \<Rightarrow> real) \<Rightarrow> bool \<Rightarrow> (nat \<Rightarrow> string) \<Rightarrow> asset list \<Rightarrow> real \<times> clip list" where
  "placeClips transDur addTr newId groupedAssets =
     foldl (placeClip transDur addTr newId) (0, []) groupedAssets"

section \<open>Assembly\<close>

text \<open>
  The Cloud Function, from the point where the caller is authenticated, the identifiers
  are given and the timeline was found; \<open>assets\<close> are the children read from the store.
  Every throw happens inside \<^verbatim>\<open>try\<close>.
\<close>

definition autoAssembleTimeline ::
  "string \<Rightarrow> (nat \<Rightarrow> string) \<Rightarrow> options \<Rightarrow> asset list \<Rightarrow> js_error + assemble_result" where
  "autoAssembleTimeline newTrackId newClipId opts assets =
     catch_internal
       (if length assets = 0
        then Inl (HttpsError ''failed-precondition'' (Some ''No assets found for this timeline''))
        else
          (case groupAssets groupKey_fn (groupBy opts)
                  (sortAssets assetTime_fn (strategy opts) assets) of
             Inl e \<Rightarrow> Inl e
           | Inr groupedAssets \<Rightarrow>
               (let st = placeClips transitionDuration_fn (addTransitions opts) newClipId groupedAssets
                in Inr (Assembled
                     [\<lparr>track_id = newTrackId, track_type = ''video'', clips = Some (snd st)\<rparr>]
                     (fst st)))))"

text \<open>
  The class method. Its parameter defaults apply to a missing option:
  \<^verbatim>\<open>strategy = 'chronological'\<close>, \<^verbatim>\<open>groupBy = 'scene'\<close>. The snapshot of the assets
  does not exist exactly when there is no asset.
\<close>

definition autoAssemble ::
  "string \<Rightarrow> (nat \<Rightarrow> string) \<Rightarrow> options \<Rightarrow> asset list \<Rightarrow> js_error + assemble_result" where
  "autoAssemble newTrackId newClipId opts assets =
     (let strat = (case strategy opts of None \<Rightarrow> ''chronological'' | Some s \<Rightarrow> s);
          gb = (case groupBy opts of None \<Rightarrow> ''scene'' | Some g \<Rightarrow> g)
      in if assets = [] then Inr (Failure ''No assets found to assemble'')
         else
           (case groupAssets groupKey (Some gb) (sortAssets assetTime (Some strat) assets) of
              Inl e \<Rightarrow> Inl e
            | Inr groupedAssets \<Rightarrow>
                (let st = placeClips transitionDuration (addTransitions opts) newClipId groupedAssets
                 in Inr (Assembled
                      [\<lparr>track_id = newTrackId, track_type = ''video'', clips = Some (snd st)\<rparr>]
                      (fst st)))))"

section \<open>Timecode and EDL\<close>

text \<open>\<^verbatim>\<open>n.toString()\<close> of a whole number, in decimal (JavaScript changes to
  exponent notation from \<open>10^21\<close> on, far beyond any timecode field or event number).\<close>

fun natToString :: "nat \<Rightarrow> string" where
  "natToString n =
     (if n < 10 then [''0123456789'' ! n]
      else natToString (n div 10) @ [''0123456789'' ! (n mod 10)])"

declare natToString.simps [simp del]

definition intToString :: "int \<Rightarrow> string" where
  "intToString i = (if i < 0 then CHR ''-'' # natToString (nat (- i)) else natToString (nat i))"

definition padStart :: "nat \<Rightarrow> char \<Rightarrow> string \<Rightarrow> string" where
  "padStart n c s = replicate (n - length s) c @ s"

text \<open>The remainder operator \<^verbatim>\<open>x % y\<close>: the quotient is truncated towards zero, so
  the result has the sign of \<open>x\<close>.\<close>

definition js_trunc :: "real \<Rightarrow> int" where
  "js_trunc q = (if 0 \<le> q then \<lfloor>q\<rfloor> else \<lceil>q\<rceil>)"

definition js_rem :: "real \<Rightarrow> real \<Rightarrow> real" where
  "js_rem x y = x - y * of_int (js_trunc (x / y))"

text \<open>\<^verbatim>\<open>formatTC\<close> of \<^verbatim>\<open>_generateCMX3600EDL\<close>, with \<^verbatim>\<open>timeline.framerate\<close> as \<open>fr\<close>.\<close>

definition formatTC :: "real \<Rightarrow> real \<Rightarrow> string" where
  "formatTC fr seconds =
     (let h = \<lfloor>seconds / 3600\<rfloor>;
          m = \<lfloor>js_rem seconds 3600 / 60\<rfloor>;
          s = \<lfloor>js_rem seconds 60\<rfloor>;
          f = \<lfloor>js_rem seconds 1 * fr\<rfloor>
      in padStart 2 (CHR ''0'') (intToString h) @ '':'' @
         padStart 2 (CHR ''0'') (intToString m) @ '':'' @
         padStart 2 (CHR ''0'') (intToString s) @ '':'' @
         padStart 2 (CHR ''0'') (intToString f))"

text \<open>\<^verbatim>\<open>formatTC\<close> of the Cloud Function's \<^verbatim>\<open>generateCMX3600EDL\<close>: the frame rate is
  \<^verbatim>\<open>timeline.framerate || 24\<close>.\<close>

definition formatTC_fn :: "real \<Rightarrow> real \<Rightarrow> string" where
  "formatTC_fn fr seconds = formatTC (if fr \<noteq> 0 then fr else 24) seconds"

definition edlEvent :: "(real \<Rightarrow> string) \<Rightarrow> nat \<Rightarrow> clip \<Rightarrow> string" where
  "edlEvent tc eventNumber c =
     padStart 3 (CHR ''0'') (natToString eventNumber) @ ''  AX       V     C        '' @
     tc (inPoint c) @ '' '' @ tc (outPoint c) @ '' '' @
     tc (startTime c) @ '' '' @ tc (endTime c) @ [CHR 0x0A] @
     ''* FROM CLIP NAME: '' @ assetId c @ [CHR 0x0A, CHR 0x0A]"

text \<open>The two nested loops, on the state \<open>(eventNumber, edl)\<close>. Iterating over a track
  without \<^verbatim>\<open>clips\<close> throws a \<^verbatim>\<open>TypeError\<close>.\<close>

fun edlClips :: "(real \<Rightarrow> string) \<Rightarrow> clip list \<Rightarrow> nat \<times> string \<Rightarrow> nat \<times> string" where
  "edlClips tc [] st = st"
| "edlClips tc (c # cs) st = edlClips tc cs (Suc (fst st), snd st @ edlEvent tc (fst st) c)"

fun edlTracks ::
  "(real \<Rightarrow> string) \<Rightarrow> track list \<Rightarrow> nat \<times> string \<Rightarrow> js_error + nat \<times> string" where
  "edlTracks tc [] st = Inr st"
| "edlTracks tc (t # ts) st =
     (case clips t of
        None \<Rightarrow> Inl TypeError
      | Some cs \<Rightarrow> edlTracks tc ts (edlClips tc cs st))"

definition edlHeader :: "timeline \<Rightarrow> string" where
  "edlHeader tln =
     ''TITLE: '' @ timeline_name tln @ [CHR 0x0A] @ ''FCM: NON-DROP FRAME'' @ [CHR 0x0A, CHR 0x0A]"

definition generateEDL :: "(real \<Rightarrow> string) \<Rightarrow> timeline \<Rightarrow> js_error + string" where
  "generateEDL tc tln =
     (case tracks tln of
        None \<Rightarrow> Inl TypeError
      | Some ts \<Rightarrow>
          (case edlTracks tc ts (1, edlHeader tln) of
             Inl e \<Rightarrow> Inl e
           | Inr st \<Rightarrow> Inr (snd st)))"

definition generateCMX3600EDL_class :: "timeline \<Rightarrow> js_error + string" where
  "generateCMX3600EDL_class tln = generateEDL (formatTC (framerate tln)) tln"

definition generateCMX3600EDL :: "timeline \<Rightarrow> js_error + string" where
  "generateCMX3600EDL tln = generateEDL (formatTC_fn (framerate tln)) tln"

text \<open>
  \<^verbatim>\<open>Timeline.exportEDL\<close> up to the EDL text it uploads; \<open>format\<close> defaults to
  \<^verbatim>\<open>'CMX3600'\<close>.
\<close>

definition exportEDL :: "string option \<Rightarrow> timeline \<Rightarrow> js_error + string" where
  "exportEDL format tln =
     (let fmt = (case format of None \<Rightarrow> ''CMX3600'' | Some f \<Rightarrow> f)
      in if (case tracks tln of None \<Rightarrow> True | Some ts \<Rightarrow> length ts = 0)
         then Inl (Error ''Cannot export EDL: Timeline has no tracks or clips'')
         else if fmt = ''CMX3600'' then generateCMX3600EDL_class tln
         else Inl (Error (''Unsupported EDL format: '' @ fmt)))"

text \<open>The Cloud Function \<^verbatim>\<open>exportTimelineEDL\<close>, from the point where the timeline was
  found, up to the EDL text it uploads.\<close>

definition exportTimelineEDL :: "string option \<Rightarrow> timeline \<Rightarrow> js_error + string" where
  "exportTimelineEDL format tln =
     catch_internal
       (if (case tracks tln of None \<Rightarrow> True | Some ts \<Rightarrow> length ts = 0)
        then Inl (HttpsError ''failed-precondition'' (Some ''Timeline has no tracks or clips''))
        else if format = Some ''CMX3600'' then generateCMX3600EDL tln
        else Inl (HttpsError ''invalid-argument''
               (Some (''Unsupported EDL format: '' @
                  (case format of None \<Rightarrow> ''undefined'' | Some f \<Rightarrow> f)))))"

section \<open>Adding a clip\<close>

text \<open>
  \<^verbatim>\<open>clipData\<close>. Its \<^verbatim>\<open>startTime\<close> is a number: the fallback
  \<^verbatim>\<open>clipData.startTime + 5\<close> of a missing one would be \<^verbatim>\<open>NaN\<close>.
\<close>

record clipData =
  cd_assetId :: string
  cd_startTime :: real
  cd_endTime :: "real option"
  cd_inPoint :: "real option"
  cd_outPoint :: "real option"
  cd_transitions :: "transitions option"

text \<open>\<^verbatim>\<open>v || d\<close> for a number-or-undefined \<open>v\<close>.\<close>

fun num_or :: "real option \<Rightarrow> real \<Rightarrow> real" where
  "num_or None d = d"
| "num_or (Some v) d = (if v \<noteq> 0 then v else d)"

fun findIndex :: "('a \<Rightarrow> bool) \<Rightarrow> 'a list \<Rightarrow> nat option" where
  "findIndex P [] = None"
| "findIndex P (x # xs) = (if P x then Some 0 else map_option Suc (findIndex P xs))"

definition newClip :: "string \<Rightarrow> clipData \<Rightarrow> clip" where
  "newClip newId cd =
     \<lparr>clip_id = newId, assetId = cd_assetId cd,
      startTime = num_or (Some (cd_startTime cd)) 0,
      endTime = num_or (cd_endTime cd) (cd_startTime cd + 5),
      inPoint = num_or (cd_inPoint cd) 0,
      outPoint = num_or (cd_outPoint cd) 5,
      clip_transitions =
        (case cd_transitions cd of
           None \<Rightarrow> \<lparr>trans_in = None, trans_out = None\<rparr>
         | Some t \<Rightarrow> t)\<rparr>"

text \<open>The recalculation of the duration: \<open>maxEndTime\<close> starts at 0.\<close>

fun maxEndClips :: "clip list \<Rightarrow> real \<Rightarrow> real" where
  "maxEndClips [] maxEndTime = maxEndTime"
| "maxEndClips (c # cs) maxEndTime =
     maxEndClips cs (if endTime c > maxEndTime then endTime c else maxEndTime)"

fun maxEndTracks :: "track list \<Rightarrow> real \<Rightarrow> js_error + real" where
  "maxEndTracks [] maxEndTime = Inr maxEndTime"
| "maxEndTracks (t # ts) maxEndTime =
     (case clips t of
        None \<Rightarrow> Inl TypeError
      | Some cs \<Rightarrow> maxEndTracks ts (maxEndClips cs maxEndTime))"

definition addClip :: "string \<Rightarrow> string \<Rightarrow> clipData \<Rightarrow> timeline \<Rightarrow> js_error + clip \<times> timeline" where
  "addClip newId trackId cd tln =
     (case tracks tln of
        None \<Rightarrow> Inl (Error ''Timeline has no tracks'')
      | Some ts \<Rightarrow>
          (case findIndex (\<lambda>t. track_id t = trackId) ts of
             None \<Rightarrow> Inl (Error (''Track with ID '' @ trackId @ '' not found''))
           | Some trackIndex \<Rightarrow>
               (case clips (ts ! trackIndex) of
                  None \<Rightarrow> Inl TypeError
                | Some cs \<Rightarrow>
                    (let c = newClip newId cd;
                         ts' = ts[trackIndex := (ts ! trackIndex)\<lparr>clips := Some (cs @ [c])\<rparr>]
                     in case maxEndTracks ts' 0 of
                          Inl e \<Rightarrow> Inl e
                        | Inr maxEndTime \<Rightarrow>
                            Inr (c, tln\<lparr>tracks := Some ts', timeline_duration := maxEndTime\<rparr>)))))"

section \<open>The specification's words\<close>



text \<open>The group key in the specification's words: \<open>metadata[groupBy]\<close> if defined,
  otherwise \<open>metadata.analysis[groupBy]\<close> if defined, otherwise \<open>"unknown"\<close>.\<close>

definition groupKey_spec :: "string \<Rightarrow> asset \<Rightarrow> string" where
  "groupKey_spec g a =
     (case map_of (tags (metadata a)) g of
        Some v \<Rightarrow> v
      | None \<Rightarrow>
          (case analysis (metadata a) of
             None \<Rightarrow> ''unknown''
           | Some an \<Rightarrow> (case map_of an g of Some w \<Rightarrow> w | None \<Rightarrow> ''unknown'')))"

text \<open>Grouping in the specification's words: the groups in the order in which their keys
  first appear, each group keeping the order of the input.\<close>

definition firstAppearance :: "'k list \<Rightarrow> 'k list" where
  "firstAppearance ks = rev (remdups (rev ks))"

definition groupAssets_spec :: "('a \<Rightarrow> string) \<Rightarrow> 'a list \<Rightarrow> 'a list" where
  "groupAssets_spec key xs =
     concat (map (\<lambda>k. filter (\<lambda>a. key a = k) xs) (firstAppearance (map key xs)))"




section \<open>Auxiliary definitions\<close>

text \<open>The clips the placement loop appends when it starts at time \<open>t\<close> with \<open>n\<close> clips
  on the track: the loop, unrolled from the left.\<close>

fun layout ::
  "(real \<Rightarrow> real) \<Rightarrow> bool \<Rightarrow> (nat \<Rightarrow> string) \<Rightarrow> real \<Rightarrow> nat \<Rightarrow> asset list \<Rightarrow> clip list" where
  "layout td addTr newId t n [] = []"
| "layout td addTr newId t n (a # as) =
     makeClip td addTr newId t n a # layout td addTr newId (t + clipDuration a) (Suc n) as"

text \<open>The groups object after the loop has seen \<open>xs\<close>, when no key is inherited.\<close>

definition groupsOf :: "('a \<Rightarrow> string) \<Rightarrow> 'a list \<Rightarrow> (string \<times> 'a list) list" where
  "groupsOf key xs = map (\<lambda>k. (k, filter (\<lambda>a. key a = k) xs)) (firstAppearance (map key xs))"

text \<open>The two places looked up, in order, and the first truthy value of a chain.\<close>

definition lookupChain :: "string \<Rightarrow> asset \<Rightarrow> string option list" where
  "lookupChain g a =
     [map_of (tags (metadata a)) g,
      (case analysis (metadata a) of None \<Rightarrow> None | Some an \<Rightarrow> map_of an g)]"

fun firstTruthy :: "string option list \<Rightarrow> string \<Rightarrow> string" where
  "firstTruthy [] d = d"
| "firstTruthy (None # vs) d = firstTruthy vs d"
| "firstTruthy (Some s # vs) d = (if s \<noteq> [] then s else firstTruthy vs d)"

text \<open>All clips of a timeline, track by track.\<close>

definition clipsOf :: "track \<Rightarrow> clip list" where
  "clipsOf t = (case clips t of None \<Rightarrow> [] | Some cs \<Rightarrow> cs)"

definition allClips :: "timeline \<Rightarrow> clip list" where
  "allClips tln = concat (map clipsOf (case tracks tln of None \<Rightarrow> [] | Some ts \<Rightarrow> ts))"

section \<open>Sample data\<close>

text \<open>A source of clip identifiers, and the three demonstration assets of
  \<^verbatim>\<open>TimelineEditor.jsx\<close> with the options its \<^verbatim>\<open>handleAutoAssemble\<close> passes.\<close>

definition clipIds :: "nat \<Rightarrow> string" where
  "clipIds n = ''clip-'' @ natToString n"

definition mockAssets :: "asset list" where
  "mockAssets =
     [\<lparr>asset_id = ''asset-1'', uploadTime = None,
       metadata = \<lparr>duration = Some 15, timestamp = Some 1750672800000,
                   tags = [(''name'', ''Interview Shot 1''), (''scene'', ''interview'')],
                   analysis = None\<rparr>\<rparr>,
      \<lparr>asset_id = ''asset-2'', uploadTime = None,
       metadata = \<lparr>duration = Some 8, timestamp = Some 1750678200000,
                   tags = [(''name'', ''B-Roll City''), (''scene'', ''b-roll'')],
                   analysis = None\<rparr>\<rparr>,
      \<lparr>asset_id = ''asset-3'', uploadTime = None,
       metadata = \<lparr>duration = Some 12, timestamp = Some 1750688100000,
                   tags = [(''name'', ''Product Close-up''), (''scene'', ''product'')],
                   analysis = None\<rparr>\<rparr>]"


definition mockClips :: "real \<Rightarrow> clip list" where
  "mockClips td =
     [\<lparr>clip_id = ''clip-0'', assetId = ''asset-1'', startTime = 0, endTime = 15,
       inPoint = 0, outPoint = 15,
       clip_transitions = \<lparr>trans_in = None, trans_out = None\<rparr>\<rparr>,
      \<lparr>clip_id = ''clip-1'', assetId = ''asset-2'', startTime = 15, endTime = 23,
       inPoint = 0, outPoint = 8,
       clip_transitions =
         \<lparr>trans_in = Some \<lparr>trans_type = ''dissolve'', trans_duration = td\<rparr>,
          trans_out = None\<rparr>\<rparr>,
      \<lparr>clip_id = ''clip-2'', assetId = ''asset-3'', startTime = 23, endTime = 35,
       inPoint = 0, outPoint = 12,
       clip_transitions =
         \<lparr>trans_in = Some \<lparr>trans_type = ''dissolve'', trans_duration = td\<rparr>,
          trans_out = None\<rparr>\<rparr>]"

definition mockTracks :: "track list" where
  "mockTracks = [\<lparr>track_id = ''track-1'', track_type = ''video'', clips = Some (mockClips 1)\<rparr>]"

text \<open>Sample inputs: a tagged asset; the interleaved scenes of the specification's
  example; two scenes that are numbered; two short assets.\<close>

definition sceneAsset :: "string \<Rightarrow> string \<Rightarrow> real \<Rightarrow> asset" where
  "sceneAsset name scene d =
     \<lparr>asset_id = name, uploadTime = None,
      metadata = \<lparr>duration = Some d, timestamp = None, tags = [(''scene'', scene)],
                  analysis = None\<rparr>\<rparr>"

definition interleavedAssets :: "asset list" where
  "interleavedAssets = [sceneAsset ''A'' ''x'' 5, sceneAsset ''B'' ''y'' 5, sceneAsset ''C'' ''x'' 5]"

definition numberedAssets :: "asset list" where
  "numberedAssets = [sceneAsset ''A'' ''2'' 5, sceneAsset ''B'' ''1'' 5]"

definition shortAssets :: "asset list" where
  "shortAssets = [sceneAsset ''A'' ''x'' 2, sceneAsset ''B'' ''x'' 2]"

definition semanticOptions :: "bool \<Rightarrow> options" where
  "semanticOptions addTr =
     \<lparr>strategy = Some ''semantic'', groupBy = Some ''scene'', addTransitions = addTr\<rparr>"

definition dissolve :: "real \<Rightarrow> transition" where
  "dissolve d = \<lparr>trans_type = ''dissolve'', trans_duration = d\<rparr>"

definition shortClips :: "real \<Rightarrow> clip list" where
  "shortClips td =
     [\<lparr>clip_id = ''clip-0'', assetId = ''A'', startTime = 0, endTime = 2,
       inPoint = 0, outPoint = 2,
       clip_transitions = \<lparr>trans_in = None, trans_out = None\<rparr>\<rparr>,
      \<lparr>clip_id = ''clip-1'', assetId = ''B'', startTime = 2, endTime = 4,
       inPoint = 0, outPoint = 2,
       clip_transitions = \<lparr>trans_in = Some (dissolve td), trans_out = None\<rparr>\<rparr>]"

text \<open>More sample inputs: an asset whose scene is the empty string while its analysis
  names one; options with a strategy the code does not know; timelines with one track
  that has no clip (as an empty array, and as the store returns it), and with the
  demonstration clips; a clip that ends before the last of them.\<close>

definition blankSceneAsset :: asset where
  "blankSceneAsset =
     \<lparr>asset_id = ''A'', uploadTime = None,
      metadata = \<lparr>duration = Some 5, timestamp = None, tags = [(''scene'', [])],
                  analysis = Some [(''scene'', ''x'')]\<rparr>\<rparr>"

definition unknownStrategyOptions :: options where
  "unknownStrategyOptions =
     \<lparr>strategy = Some ''alphabetical'', groupBy = Some ''scene'', addTransitions = True\<rparr>"

definition emptyTrackTimeline :: timeline where
  "emptyTrackTimeline =
     \<lparr>timeline_name = ''Demo'', framerate = 24, timeline_duration = 0,
      tracks = Some [\<lparr>track_id = ''track-1'', track_type = ''video'', clips = Some []\<rparr>]\<rparr>"

definition storedEmptyTrackTimeline :: timeline where
  "storedEmptyTrackTimeline =
     \<lparr>timeline_name = ''Demo'', framerate = 24, timeline_duration = 0,
      tracks = Some [\<lparr>track_id = ''track-1'', track_type = ''video'', clips = None\<rparr>]\<rparr>"

definition mockTimeline :: timeline where
  "mockTimeline =
     \<lparr>timeline_name = ''Demo'', framerate = 24, timeline_duration = 35, tracks = Some mockTracks\<rparr>"

definition earlyClipData :: clipData where
  "earlyClipData =
     \<lparr>cd_assetId = ''asset-4'', cd_startTime = 5, cd_endTime = Some 10,
      cd_inPoint = None, cd_outPoint = None, cd_transitions = None\<rparr>"

definition earlyClip :: clip where
  "earlyClip =
     \<lparr>clip_id = ''clip-9'', assetId = ''asset-4'', startTime = 5, endTime = 10,
      inPoint = 0, outPoint = 5,
      clip_transitions = \<lparr>trans_in = None, trans_out = None\<rparr>\<rparr>"

section \<open>The placement loop\<close>

lemma foldl_placeClip:
  "foldl (placeClip td addTr newId) (t, cs) as =
     (t + sum_list (map clipDuration as), cs @ layout td addTr newId t (length cs) as)"
  by (induction as arbitrary: t cs) (simp_all add: placeClip_def add.assoc)

lemma placeClips_layout:
  "placeClips td addTr newId as = (sum_list (map clipDuration as), layout td addTr newId 0 0 as)"
  by (simp add: placeClips_def foldl_placeClip)



lemma makeClip_times [simp]:
  "startTime (makeClip td addTr newId t n a) = t"
  "endTime (makeClip td addTr newId t n a) = t + clipDuration a"
  "assetId (makeClip td addTr newId t n a) = asset_id a"
  "inPoint (makeClip td addTr newId t n a) = 0"
  "outPoint (makeClip td addTr newId t n a) = clipDuration a"
  by (simp_all add: makeClip_def Let_def)

lemma layout_Nil_iff [simp]: "layout td addTr newId t n as = [] \<longleftrightarrow> as = []"
  by (cases as) simp_all






section \<open>Ordering and grouping permute the assets\<close>

lemma mset_insert_cmp: "mset (insert_cmp cmp x ys) = add_mset x (mset ys)"
  by (induction ys) simp_all

lemma mset_js_sort: "mset (js_sort cmp xs) = mset xs"
  by (induction xs) (simp_all add: js_sort_def mset_insert_cmp)

lemma mset_sortAssets: "mset (sortAssets time strat as) = mset as"
  by (simp add: sortAssets_def mset_js_sort)

lemma mset_pushTo:
  "mset (concat (map snd (pushTo k a g))) = add_mset a (mset (concat (map snd g)))"
  by (induction g) auto

lemma mset_groupLoop:
  "groupLoop key as g = Inr g' \<Longrightarrow>
     mset (concat (map snd g')) = mset (concat (map snd g)) + mset as"
proof (induction as arbitrary: g)
  case Nil
  then show ?case by simp
next
  case (Cons a as)
  from Cons.prems have "groupLoop key as (pushTo (key a) a g) = Inr g'"
    by (simp split: if_splits)
  from Cons.IH [OF this] show ?case by (simp add: mset_pushTo)
qed

lemma mset_concat_snd_sum:
  "mset (concat (map snd zs)) = (\<Sum>p\<in>#mset zs. mset (snd p))"
  by (induction zs) simp_all

lemma mset_concat_snd:
  "mset xs = mset ys \<Longrightarrow> mset (concat (map snd xs)) = mset (concat (map snd ys))"
  by (simp add: mset_concat_snd_sum)

lemma mset_objectValues:
  "mset (concat (objectValues g)) = mset (concat (map snd g))"
proof -
  let ?P = "\<lambda>p :: string \<times> 'a list. array_index (fst p) \<noteq> None"
  have "mset (concat (objectValues g)) =
          mset (concat (map snd (sort_key index_of_key (filter ?P g)))) +
          mset (concat (map snd (filter (\<lambda>p. \<not> ?P p) g)))"
    by (simp add: objectValues_def)
  also have "mset (concat (map snd (sort_key index_of_key (filter ?P g)))) =
          mset (concat (map snd (filter ?P g)))"
    by (rule mset_concat_snd) simp
  also have "mset (concat (map snd (filter ?P g))) + mset (concat (map snd (filter (\<lambda>p. \<not> ?P p) g)))
          = mset (concat (map snd (filter ?P g @ filter (\<lambda>p. \<not> ?P p) g)))"
    by simp
  also have "\<dots> = mset (concat (map snd g))"
    by (rule mset_concat_snd) simp
  finally show ?thesis .
qed

lemma mset_groupAssets:
  "groupAssets key gb xs = Inr ys \<Longrightarrow> mset ys = mset xs"
  by (auto simp: groupAssets_def mset_objectValues dest!: mset_groupLoop
           split: option.splits if_splits sum.splits)

section \<open>What an assembled timeline looks like\<close>

lemma autoAssembleTimeline_Assembled:
  assumes "autoAssembleTimeline tid cid opts assets = Inr (Assembled trks dur)"
  shows "\<exists>placed. mset placed = mset assets \<and> assets \<noteq> [] \<and>
           trks = [\<lparr>track_id = tid, track_type = ''video'',
                    clips = Some (layout transitionDuration_fn (addTransitions opts) cid 0 0 placed)\<rparr>] \<and>
           dur = sum_list (map clipDuration placed)"
proof -
  from assms obtain placed where
    ne: "assets \<noteq> []" and
    g: "groupAssets groupKey_fn (groupBy opts) (sortAssets assetTime_fn (strategy opts) assets) = Inr placed" and
    r: "trks = [\<lparr>track_id = tid, track_type = ''video'',
                 clips = Some (snd (placeClips transitionDuration_fn (addTransitions opts) cid placed))\<rparr>]"
       "dur = fst (placeClips transitionDuration_fn (addTransitions opts) cid placed)"
    by (auto simp: autoAssembleTimeline_def catch_internal_def Let_def split: if_splits sum.splits)
  from g have "mset placed = mset assets"
    using mset_groupAssets mset_sortAssets by metis
  then show ?thesis using ne r by (auto simp: placeClips_layout)
qed








lemma clipIds_values: "clipIds 0 = ''clip-0''" "clipIds (Suc 0) = ''clip-1''" "clipIds (Suc (Suc 0)) = ''clip-2''"
  by (simp_all add: clipIds_def natToString.simps)






section \<open>Empty input\<close>

text \<open>
  C8. Assembly invoked with an empty asset sequence fails, whatever the options: the
  Cloud Function throws (the \<^verbatim>\<open>failed-precondition\<close> error is thrown inside \<^verbatim>\<open>try\<close>
  and leaves the function as an \<^verbatim>\<open>internal\<close> error with the same message), the class
  method returns \<^verbatim>\<open>{success: false, message: "No assets found to assemble"}\<close>. Neither
  returns a timeline.
\<close>

theorem empty_assets_fail:
  "autoAssembleTimeline tid cid opts [] =
     Inl (HttpsError ''internal'' (Some ''No assets found for this timeline'')) \<and>
   autoAssemble tid cid opts [] = Inr (Failure ''No assets found to assemble'')"
  by (simp add: autoAssembleTimeline_def autoAssemble_def catch_internal_def)

section \<open>Duration of an assembled timeline\<close>



section \<open>Clips of a track do not overlap\<close>




section \<open>Transitions\<close>

lemma layout_length [simp]: "length (layout td addTr newId t n as) = length as"
  by (induction as arbitrary: t n) simp_all

lemma layout_nth:
  "i < length as \<Longrightarrow>
     layout td addTr newId t n as ! i =
       makeClip td addTr newId (t + sum_list (map clipDuration (take i as))) (n + i) (as ! i)"
proof (induction as arbitrary: t n i)
  case Nil
  then show ?case by simp
next
  case (Cons a as)
  then show ?case by (cases i) (simp_all add: add.assoc)
qed

lemma makeClip_transitions:
  "trans_out (clip_transitions (makeClip td addTr newId t n a)) = None"
  "trans_in (clip_transitions (makeClip td addTr newId t n a)) =
     (if addTr \<and> n > 0 then Some \<lparr>trans_type = ''dissolve'', trans_duration = td (clipDuration a)\<rparr>
      else None)"
  by (simp_all add: makeClip_def Let_def)

text \<open>With \<open>addTransitions\<close>, \<^verbatim>\<open>autoAssembleTimeline\<close> leaves the first clip without
  \<open>transitions.in\<close>, gives every later clip a dissolve of \<open>min(1.0, clipDuration / 4)\<close>,
  and never sets \<open>transitions.out\<close>.\<close>

lemma autoAssembleTimeline_transitions:
  assumes "autoAssembleTimeline tid cid opts assets = Inr (Assembled trks dur)"
    and "addTransitions opts"
  shows "\<exists>placed cs. mset placed = mset assets \<and>
           trks = [\<lparr>track_id = tid, track_type = ''video'', clips = Some cs\<rparr>] \<and>
           length cs = length placed \<and> cs \<noteq> [] \<and>
           trans_in (clip_transitions (cs ! 0)) = None \<and>
           (\<forall>i. 0 < i \<and> i < length cs \<longrightarrow>
              trans_in (clip_transitions (cs ! i)) =
                Some \<lparr>trans_type = ''dissolve'',
                      trans_duration = min 1 (clipDuration (placed ! i) / 4)\<rparr>) \<and>
           (\<forall>i < length cs. trans_out (clip_transitions (cs ! i)) = None)"
proof -
  from autoAssembleTimeline_Assembled [OF assms(1)] obtain placed where p:
    "mset placed = mset assets" "assets \<noteq> []"
    "trks = [\<lparr>track_id = tid, track_type = ''video'',
              clips = Some (layout transitionDuration_fn (addTransitions opts) cid 0 0 placed)\<rparr>]"
    by blast
  let ?cs = "layout transitionDuration_fn (addTransitions opts) cid 0 0 placed"
  have ne: "placed \<noteq> []" using p(1,2) by auto
  then have "0 < length placed" by simp
  then have "trans_in (clip_transitions (?cs ! 0)) = None"
    by (simp add: layout_nth makeClip_transitions)
  moreover have "\<forall>i. 0 < i \<and> i < length ?cs \<longrightarrow>
              trans_in (clip_transitions (?cs ! i)) =
                Some \<lparr>trans_type = ''dissolve'',
                      trans_duration = min 1 (clipDuration (placed ! i) / 4)\<rparr>"
    using assms(2) by (simp add: layout_nth makeClip_transitions transitionDuration_fn_def)
  moreover have "\<forall>i < length ?cs. trans_out (clip_transitions (?cs ! i)) = None"
    by (simp add: layout_nth makeClip_transitions)
  ultimately show ?thesis using p(1,3) ne
    by (intro exI [of _ placed] exI [of _ ?cs]) simp
qed

lemma short_group: "groupAssets groupKey (Some ''scene'') shortAssets = Inr shortAssets"
  "groupAssets groupKey_fn (Some ''scene'') shortAssets = Inr shortAssets"
  by (simp_all add: groupAssets_def groupKey_def groupKey_fn_def shortAssets_def sceneAsset_def
       object_prototype_keys_def objectValues_def array_index_def is_digit_def)

lemma short_layout:
  "layout td True clipIds 0 0 shortAssets = shortClips (td 2)"
  by (simp add: shortAssets_def sceneAsset_def shortClips_def makeClip_def clipDuration_def
       clipIds_values dissolve_def)

lemma short_durations: "sum_list (map clipDuration shortAssets) = 4"
  by (simp add: shortAssets_def sceneAsset_def clipDuration_def)

lemma shortAssets_ne: "shortAssets \<noteq> []"
  by (simp add: shortAssets_def)

text \<open>
  C3. With \<open>addTransitions = true\<close> and two assets of 2 seconds each,
  \<^verbatim>\<open>Timeline.autoAssemble\<close> gives the second clip a dissolve of 1 second, where the
  claim asks for \<open>min(1.0, 2 / 4) = 0.5\<close> seconds; the Cloud Function, on the same
  input, gives 0.5.
\<close>

theorem autoAssemble_flat_transition:
  "autoAssemble ''track-1'' clipIds (semanticOptions True) shortAssets =
     Inr (Assembled [\<lparr>track_id = ''track-1'', track_type = ''video'',
                      clips = Some (shortClips 1)\<rparr>] 4) \<and>
   autoAssembleTimeline ''track-1'' clipIds (semanticOptions True) shortAssets =
     Inr (Assembled [\<lparr>track_id = ''track-1'', track_type = ''video'',
                      clips = Some (shortClips (1 / 2))\<rparr>] 4) \<and>
   min 1 (clipDuration (shortAssets ! 1) / 4) = 1 / 2 \<and>
   shortClips 1 \<noteq> shortClips (1 / 2)"
proof (intro conjI)
  show "autoAssemble ''track-1'' clipIds (semanticOptions True) shortAssets =
     Inr (Assembled [\<lparr>track_id = ''track-1'', track_type = ''video'',
                      clips = Some (shortClips 1)\<rparr>] 4)"
    by (simp add: autoAssemble_def semanticOptions_def sortAssets_def short_group
        placeClips_layout short_layout short_durations shortAssets_ne transitionDuration_def)
  show "autoAssembleTimeline ''track-1'' clipIds (semanticOptions True) shortAssets =
     Inr (Assembled [\<lparr>track_id = ''track-1'', track_type = ''video'',
                      clips = Some (shortClips (1 / 2))\<rparr>] 4)"
    by (simp add: autoAssembleTimeline_def semanticOptions_def sortAssets_def short_group
        catch_internal_def placeClips_layout short_layout short_durations shortAssets_ne
        transitionDuration_fn_def)
  show "min 1 (clipDuration (shortAssets ! 1) / 4) = 1 / 2"
    by (simp add: shortAssets_def sceneAsset_def clipDuration_def)
  show "shortClips 1 \<noteq> shortClips (1 / 2)"
    by (simp add: shortClips_def dissolve_def)
qed

section \<open>Grouping order\<close>

lemma firstAppearance_snoc:
  "firstAppearance (ks @ [k]) =
     (if k \<in> set ks then firstAppearance ks else firstAppearance ks @ [k])"
  by (simp add: firstAppearance_def)

lemma set_firstAppearance [simp]: "set (firstAppearance ks) = set ks"
  by (simp add: firstAppearance_def)

lemma distinct_firstAppearance [simp]: "distinct (firstAppearance ks)"
  by (simp add: firstAppearance_def)

lemma pushTo_map:
  "distinct ks \<Longrightarrow>
     pushTo k a (map (\<lambda>k'. (k', f k')) ks) =
       (if k \<in> set ks then map (\<lambda>k'. (k', if k' = k then f k' @ [a] else f k')) ks
        else map (\<lambda>k'. (k', f k')) ks @ [(k, [a])])"
  by (induction ks) auto

lemma pushTo_groupsOf:
  "pushTo (key a) a (groupsOf key xs) = groupsOf key (xs @ [a])"
proof (cases "key a \<in> set (map key xs)")
  case True
  then show ?thesis
    by (simp add: groupsOf_def pushTo_map firstAppearance_snoc)
next
  case False
  then have nk: "\<forall>x\<in>set xs. key x \<noteq> key a" by (metis image_eqI list.set_map)
  then have "filter (\<lambda>x. key x = key a) xs = []"
    by (simp add: filter_empty_conv)
  moreover have "map (\<lambda>k. (k, filter (\<lambda>x. key x = k) xs @ (if key a = k then [a] else [])))
                   (firstAppearance (map key xs)) =
                 map (\<lambda>k. (k, filter (\<lambda>x. key x = k) xs)) (firstAppearance (map key xs))"
  proof (rule map_cong [OF refl])
    fix k assume "k \<in> set (firstAppearance (map key xs))"
    then obtain x where "x \<in> set xs" "k = key x" by auto
    then have "key a \<noteq> k" using nk by auto
    then show "(k, filter (\<lambda>x. key x = k) xs @ (if key a = k then [a] else [])) =
               (k, filter (\<lambda>x. key x = k) xs)" by simp
  qed
  moreover have "\<forall>x\<in>set xs. key a \<noteq> key x" using nk by metis
  ultimately show ?thesis using False
    by (simp add: groupsOf_def pushTo_map firstAppearance_snoc)
qed

lemma groupLoop_groupsOf:
  "\<forall>a\<in>set as. key a \<notin> set object_prototype_keys \<Longrightarrow>
     groupLoop key as (groupsOf key xs) = Inr (groupsOf key (xs @ as))"
proof (induction as arbitrary: xs)
  case Nil
  then show ?case by simp
next
  case (Cons a as)
  then have "groupLoop key as (groupsOf key (xs @ [a])) = Inr (groupsOf key ((xs @ [a]) @ as))"
    by simp
  then show ?case using Cons.prems by (simp add: pushTo_groupsOf)
qed

lemma objectValues_no_index:
  "\<forall>p\<in>set obj. array_index (fst p) = None \<Longrightarrow> objectValues obj = map snd obj"
proof -
  assume h: "\<forall>p\<in>set obj. array_index (fst p) = None"
  then have "filter (\<lambda>p. array_index (fst p) \<noteq> None) obj = []"
    by (auto simp: filter_empty_conv)
  moreover have "filter (\<lambda>p. array_index (fst p) = None) obj = obj"
    using h by (auto simp: filter_id_conv)
  ultimately show ?thesis by (simp add: objectValues_def)
qed

text \<open>For keys that are neither inherited from \<^verbatim>\<open>Object.prototype\<close> nor array indices,
  the grouping step of either implementation is the grouping of the specification.\<close>

lemma groupAssets_first_appearance:
  assumes "g \<noteq> []"
    and "\<forall>a\<in>set xs. key g a \<notin> set object_prototype_keys \<and> array_index (key g a) = None"
  shows "groupAssets key (Some g) xs = Inr (groupAssets_spec (key g) xs)"
proof -
  have "groupLoop (key g) xs (groupsOf (key g) []) = Inr (groupsOf (key g) ([] @ xs))"
    using assms(2) by (intro groupLoop_groupsOf) simp
  then have l: "groupLoop (key g) xs [] = Inr (groupsOf (key g) xs)"
    by (simp add: groupsOf_def firstAppearance_def)
  have "\<forall>p\<in>set (groupsOf (key g) xs). array_index (fst p) = None"
    using assms(2) by (auto simp: groupsOf_def)
  then have "objectValues (groupsOf (key g) xs) = map snd (groupsOf (key g) xs)"
    by (rule objectValues_no_index)
  moreover have "concat (map snd (groupsOf (key g) xs)) = groupAssets_spec (key g) xs"
    by (simp add: groupsOf_def groupAssets_spec_def comp_def)
  ultimately show ?thesis using assms(1) l by (simp add: groupAssets_def)
qed

lemma array_index_samples:
  "array_index ''2'' = Some 2" "array_index ''1'' = Some 1"
  "array_index ''x'' = None" "array_index ''y'' = None"
  by (simp_all add: array_index_def is_digit_def decimal_value_def digit_value_def)

lemma numbered_group:
  "groupAssets groupKey (Some ''scene'') numberedAssets = Inr (rev numberedAssets)"
  "groupAssets groupKey_fn (Some ''scene'') numberedAssets = Inr (rev numberedAssets)"
  by (simp_all add: groupAssets_def groupKey_def groupKey_fn_def numberedAssets_def sceneAsset_def
       object_prototype_keys_def objectValues_def array_index_samples index_of_key_def)

lemma numbered_spec:
  "groupAssets_spec (groupKey ''scene'') numberedAssets = numberedAssets"
  "groupAssets_spec (groupKey_fn ''scene'') numberedAssets = numberedAssets"
  by (simp_all add: groupAssets_spec_def firstAppearance_def groupKey_def groupKey_fn_def
       numberedAssets_def sceneAsset_def)

lemma interleaved_group:
  "groupAssets groupKey (Some ''scene'') interleavedAssets =
     Inr [sceneAsset ''A'' ''x'' 5, sceneAsset ''C'' ''x'' 5, sceneAsset ''B'' ''y'' 5]"
  "groupAssets groupKey_fn (Some ''scene'') interleavedAssets =
     Inr [sceneAsset ''A'' ''x'' 5, sceneAsset ''C'' ''x'' 5, sceneAsset ''B'' ''y'' 5]"
  by (simp_all add: groupAssets_def groupKey_def groupKey_fn_def interleavedAssets_def sceneAsset_def
       object_prototype_keys_def objectValues_def array_index_samples index_of_key_def)

text \<open>A scene named like a property of \<^verbatim>\<open>Object.prototype\<close> makes the grouping step
  throw.\<close>

lemma grouping_inherited_key_throws:
  "groupAssets groupKey (Some ''scene'') [sceneAsset ''A'' ''constructor'' 5] = Inl TypeError"
  "groupAssets groupKey_fn (Some ''scene'') [sceneAsset ''A'' ''constructor'' 5] = Inl TypeError"
  by (simp_all add: groupAssets_def groupKey_def groupKey_fn_def sceneAsset_def
       object_prototype_keys_def)

text \<open>
  C4. Two assets whose scenes are \<open>"2"\<close> and then \<open>"1"\<close>: the group keys first appear in
  the order \<open>2, 1\<close>, so the claim asks for the output \<open>[A, B]\<close>; both implementations
  return \<open>[B, A]\<close>, because \<^verbatim>\<open>Object.values\<close> lists integer-like keys in ascending
  numeric order before all others. The specification's own example (scenes \<open>x, y, x\<close>)
  does give \<open>[A, C, B]\<close>, and without a \<open>groupBy\<close> key the step returns its input.
\<close>

theorem grouping_numeric_keys_reordered:
  "groupAssets groupKey (Some ''scene'') numberedAssets = Inr (rev numberedAssets) \<and>
   groupAssets groupKey_fn (Some ''scene'') numberedAssets = Inr (rev numberedAssets) \<and>
   groupAssets_spec (groupKey ''scene'') numberedAssets = numberedAssets \<and>
   groupAssets_spec (groupKey_fn ''scene'') numberedAssets = numberedAssets \<and>
   map asset_id numberedAssets = [''A'', ''B''] \<and>
   map asset_id (rev numberedAssets) = [''B'', ''A''] \<and>
   groupAssets groupKey (Some ''scene'') interleavedAssets =
     Inr [sceneAsset ''A'' ''x'' 5, sceneAsset ''C'' ''x'' 5, sceneAsset ''B'' ''y'' 5] \<and>
   groupAssets groupKey None interleavedAssets = Inr interleavedAssets"
  using numbered_group numbered_spec interleaved_group(1)
  by (simp add: numberedAssets_def sceneAsset_def groupAssets_def)

section \<open>Timecode\<close>















section \<open>EDL export\<close>

lemma edlTracks_error: "edlTracks tc ts st = Inl e \<Longrightarrow> e = TypeError"
  by (induction ts arbitrary: st) (auto split: option.splits)

lemma generateEDL_error: "generateEDL tc tln = Inl e \<Longrightarrow> e = TypeError"
  by (auto simp: generateEDL_def split: option.splits sum.splits dest: edlTracks_error)

text \<open>The error for a timeline without tracks is raised exactly when there is no track;
  whether the tracks hold clips plays no role.\<close>

lemma exportEDL_no_tracks_iff:
  "exportEDL format tln = Inl (Error ''Cannot export EDL: Timeline has no tracks or clips'')
     \<longleftrightarrow> tracks tln = None \<or> tracks tln = Some []"
  by (auto simp: exportEDL_def generateCMX3600EDL_class_def Let_def
           split: option.splits dest: generateEDL_error)

lemma exportTimelineEDL_no_tracks_iff:
  "exportTimelineEDL format tln = Inl (HttpsError ''internal'' (Some ''Timeline has no tracks or clips''))
     \<longleftrightarrow> tracks tln = None \<or> tracks tln = Some []"
  by (auto simp: exportTimelineEDL_def generateCMX3600EDL_def catch_internal_def
           split: option.splits sum.splits dest: generateEDL_error)

text \<open>
  C6. A timeline whose only track has no clip: the claim asks for the "no clips" error.
  With the clips as an empty array both exports succeed and return an EDL that consists of
  the header alone; with the \<^verbatim>\<open>clips\<close> property missing (a stored empty array is not
  kept) iterating over it throws a \<^verbatim>\<open>TypeError\<close>. Neither is the error that the code
  raises for a timeline without tracks, whose message reads "no tracks or clips".
\<close>

theorem export_empty_track_no_error:
  "exportEDL (Some ''CMX3600'') emptyTrackTimeline =
     Inr (''TITLE: Demo'' @ [CHR 0x0A] @ ''FCM: NON-DROP FRAME'' @ [CHR 0x0A, CHR 0x0A]) \<and>
   exportTimelineEDL (Some ''CMX3600'') emptyTrackTimeline =
     Inr (''TITLE: Demo'' @ [CHR 0x0A] @ ''FCM: NON-DROP FRAME'' @ [CHR 0x0A, CHR 0x0A]) \<and>
   exportEDL (Some ''CMX3600'') storedEmptyTrackTimeline = Inl TypeError \<and>
   exportTimelineEDL (Some ''CMX3600'') storedEmptyTrackTimeline = Inl (HttpsError ''internal'' None) \<and>
   allClips emptyTrackTimeline = [] \<and> allClips storedEmptyTrackTimeline = []"
  by (simp add: exportEDL_def exportTimelineEDL_def generateCMX3600EDL_class_def
        generateCMX3600EDL_def generateEDL_def edlHeader_def catch_internal_def
        emptyTrackTimeline_def storedEmptyTrackTimeline_def allClips_def clipsOf_def)

section \<open>Unknown strategies\<close>

lemma sortAssets_unknown:
  "s \<noteq> ''chronological'' \<Longrightarrow> sortAssets time (Some s) assets = assets"
  by (simp add: sortAssets_def)

theorem unknown_strategy_assembles:
  "autoAssembleTimeline ''track-1'' clipIds unknownStrategyOptions shortAssets =
     Inr (Assembled [\<lparr>track_id = ''track-1'', track_type = ''video'',
                      clips = Some (shortClips (1 / 2))\<rparr>] 4) \<and>
   autoAssemble ''track-1'' clipIds unknownStrategyOptions shortAssets =
     Inr (Assembled [\<lparr>track_id = ''track-1'', track_type = ''video'',
                      clips = Some (shortClips 1)\<rparr>] 4)"
  by (simp add: autoAssembleTimeline_def autoAssemble_def unknownStrategyOptions_def
        sortAssets_def short_group catch_internal_def placeClips_layout short_layout
        short_durations shortAssets_ne transitionDuration_fn_def transitionDuration_def)

text \<open>
  C7 (amended). For every assembly whose strategy is a string other than
  \<open>"chronological"\<close> and \<open>"semantic"\<close>, neither implementation fails on that account:
  the \<^verbatim>\<open>default\<close> branch of the \<^verbatim>\<open>switch\<close> keeps the assets in input order, and the
  whole run is the one for \<open>"semantic"\<close>.
\<close>

theorem unknown_strategy_as_semantic:
  "strategy opts = Some s \<and> s \<noteq> ''chronological'' \<and> s \<noteq> ''semantic'' \<longrightarrow>
     sortAssets assetTime_fn (strategy opts) assets = assets \<and>
     sortAssets assetTime (strategy opts) assets = assets \<and>
     autoAssembleTimeline tid cid opts assets =
       autoAssembleTimeline tid cid (opts\<lparr>strategy := Some ''semantic''\<rparr>) assets \<and>
     autoAssemble tid cid opts assets =
       autoAssemble tid cid (opts\<lparr>strategy := Some ''semantic''\<rparr>) assets"
  by (auto simp: autoAssembleTimeline_def autoAssemble_def sortAssets_def Let_def
           split: sum.splits)

theorem unknown_strategy_as_semantic_witness:
  "strategy unknownStrategyOptions = Some ''alphabetical'' \<and>
   ''alphabetical'' \<noteq> ''chronological'' \<and> ''alphabetical'' \<noteq> ''semantic'' \<and>
   sortAssets assetTime_fn (strategy unknownStrategyOptions) shortAssets = shortAssets \<and>
   autoAssemble ''track-1'' clipIds unknownStrategyOptions shortAssets =
     autoAssemble ''track-1'' clipIds (semanticOptions True) shortAssets"
proof -
  have h: "strategy unknownStrategyOptions = Some ''alphabetical'' \<and>
           ''alphabetical'' \<noteq> ''chronological'' \<and> ''alphabetical'' \<noteq> ''semantic''"
    by (simp add: unknownStrategyOptions_def)
  have e: "unknownStrategyOptions\<lparr>strategy := Some ''semantic''\<rparr> = semanticOptions True"
    by (simp add: unknownStrategyOptions_def semanticOptions_def)
  note t = unknown_strategy_as_semantic
    [of unknownStrategyOptions "''alphabetical''" shortAssets "''track-1''" clipIds, THEN mp, OF h]
  from t have r1: "sortAssets assetTime_fn (strategy unknownStrategyOptions) shortAssets = shortAssets"
    by (rule conjunct1)
  from t have r2: "autoAssemble ''track-1'' clipIds unknownStrategyOptions shortAssets =
     autoAssemble ''track-1'' clipIds (semanticOptions True) shortAssets"
    by (simp only: e)
  from h r1 r2 show ?thesis by (simp only: simp_thms)
qed

section \<open>Group keys\<close>

theorem groupKey_defined_but_empty:
  "groupKey_fn ''scene'' blankSceneAsset = ''x'' \<and>
   groupKey_spec ''scene'' blankSceneAsset = [] \<and>
   map_of (tags (metadata blankSceneAsset)) ''scene'' = Some []"
  by (simp add: groupKey_fn_def groupKey_spec_def blankSceneAsset_def)

text \<open>
  C9 (amended). When a \<open>groupBy\<close> key is present, \<^verbatim>\<open>autoAssembleTimeline\<close> resolves
  every asset's group key by this ordered lookup: \<open>metadata[groupBy]\<close> if truthy
  (defined and not the empty string), otherwise \<open>metadata.analysis[groupBy]\<close> if truthy,
  otherwise the literal \<open>"unknown"\<close>; the first truthy value in that chain is used. This
  is the lookup of the claim whenever no looked-up value is the empty string.
\<close>

theorem groupKey_fn_first_truthy:
  "groupKey_fn g a = firstTruthy (lookupChain g a) ''unknown'' \<and>
   ((\<forall>v\<in>set (lookupChain g a). v \<noteq> Some []) \<longrightarrow> groupKey_fn g a = groupKey_spec g a)"
  by (auto simp: groupKey_fn_def groupKey_spec_def lookupChain_def Let_def split: option.splits)

theorem groupKey_fn_first_truthy_witness:
  "lookupChain ''scene'' (hd mockAssets) = [Some ''interview'', None] \<and>
   groupKey_fn ''scene'' (hd mockAssets) = groupKey_spec ''scene'' (hd mockAssets) \<and>
   groupKey_fn ''scene'' (hd mockAssets) = ''interview''"
proof -
  have c: "lookupChain ''scene'' (hd mockAssets) = [Some ''interview'', None]"
    by (simp add: lookupChain_def mockAssets_def)
  then have h: "\<forall>v\<in>set (lookupChain ''scene'' (hd mockAssets)). v \<noteq> Some []" by simp
  note t = groupKey_fn_first_truthy [of "''scene''" "hd mockAssets"]
  from t h have r1: "groupKey_fn ''scene'' (hd mockAssets) = groupKey_spec ''scene'' (hd mockAssets)"
    by blast
  from t have r2: "groupKey_fn ''scene'' (hd mockAssets) = ''interview''"
    by (simp add: c)
  from c r1 r2 show ?thesis by (simp only: simp_thms)
qed

section \<open>The duration after adding a clip\<close>

lemma maxEndClips_fold: "maxEndClips cs m = fold max (map endTime cs) m"
  by (induction cs arbitrary: m) (simp_all add: max_def)

lemma maxEndTracks_fold:
  "maxEndTracks ts m = Inr r \<Longrightarrow>
     r = fold max (map endTime (concat (map clipsOf ts))) m \<and> (\<forall>t\<in>set ts. clips t \<noteq> None)"
  by (induction ts arbitrary: m) (auto simp: clipsOf_def maxEndClips_fold split: option.splits)

lemma fold_max_Max: "fold max (map f xs) (m::real) = Max (insert m (f ` set xs))"
proof -
  have "Max (set (m # map f xs)) = fold max (map f xs) m" by (rule Max.set_eq_fold)
  then show ?thesis by simp
qed

lemma findIndex_Some: "findIndex P xs = Some i \<Longrightarrow> i < length xs \<and> P (xs ! i)"
  by (induction xs arbitrary: i) (auto split: if_splits)

lemma mset_concat_update:
  "i < length ts \<Longrightarrow>
     mset (concat (map f (ts[i := x]))) + mset (f (ts ! i)) = mset (concat (map f ts)) + mset (f x)"
proof (induction ts arbitrary: i)
  case Nil
  then show ?case by simp
next
  case (Cons t ts)
  then show ?case by (cases i) auto
qed

lemma addClip_Inr:
  assumes "addClip newId trackId cd tln = Inr (c, tln')"
  shows "\<exists>ts i cs. tracks tln = Some ts \<and> i < length ts \<and> clips (ts ! i) = Some cs \<and>
           c = newClip newId cd \<and>
           maxEndTracks (ts[i := (ts ! i)\<lparr>clips := Some (cs @ [c])\<rparr>]) 0 = Inr (timeline_duration tln') \<and>
           tracks tln' = Some (ts[i := (ts ! i)\<lparr>clips := Some (cs @ [c])\<rparr>])"
  using assms
  by (auto simp: addClip_def Let_def split: option.splits sum.splits dest!: findIndex_Some)

text \<open>
  C10. After every successful \<^verbatim>\<open>addClip\<close> the clips of the timeline are the former
  ones and the new one, and the duration is recomputed over all of them, starting from 0:
  it is the greatest of 0 and every \<open>endTime\<close>. So it equals the maximum \<open>endTime\<close> over
  all clips in all tracks as soon as one clip does not end before time 0, as every clip
  of the data model does, also when the new clip ends earlier than an existing one.
\<close>

theorem addClip_duration:
  assumes "addClip newId trackId cd tln = Inr (c, tln')"
  shows "mset (allClips tln') = add_mset c (mset (allClips tln)) \<and>
         timeline_duration tln' = Max (insert 0 (endTime ` set (allClips tln'))) \<and>
         ((\<exists>c'\<in>set (allClips tln'). 0 \<le> endTime c') \<longrightarrow>
            timeline_duration tln' = Max (endTime ` set (allClips tln')))"
proof -
  from addClip_Inr [OF assms] obtain ts i cs where a:
    "tracks tln = Some ts" "i < length ts" "clips (ts ! i) = Some cs"
    "maxEndTracks (ts[i := (ts ! i)\<lparr>clips := Some (cs @ [c])\<rparr>]) 0 = Inr (timeline_duration tln')"
    "tracks tln' = Some (ts[i := (ts ! i)\<lparr>clips := Some (cs @ [c])\<rparr>])"
    by blast
  let ?t' = "(ts ! i)\<lparr>clips := Some (cs @ [c])\<rparr>"
  have "mset (concat (map clipsOf (ts[i := ?t']))) + mset (clipsOf (ts ! i)) =
          mset (concat (map clipsOf ts)) + mset (clipsOf ?t')"
    using a(2) by (rule mset_concat_update)
  then have m: "mset (allClips tln') = add_mset c (mset (allClips tln))"
    using a(1,3,5) by (simp add: allClips_def clipsOf_def)
  have d: "timeline_duration tln' = Max (insert 0 (endTime ` set (allClips tln')))"
    using maxEndTracks_fold [OF a(4)] a(5) by (simp add: allClips_def fold_max_Max)
  have "timeline_duration tln' = Max (endTime ` set (allClips tln'))"
    if "\<exists>c'\<in>set (allClips tln'). 0 \<le> endTime c'"
  proof -
    let ?E = "endTime ` set (allClips tln')"
    from that obtain c' where c': "c' \<in> set (allClips tln')" "0 \<le> endTime c'" by blast
    have fin: "finite ?E" and ne: "?E \<noteq> {}" using c'(1) by auto
    have "endTime c' \<le> Max ?E" using c'(1) by (intro Max_ge) auto
    then have "0 \<le> Max ?E" using c'(2) by linarith
    then have "Max (insert 0 ?E) = Max ?E" using fin ne by (simp add: max_def)
    then show ?thesis using d by simp
  qed
  then show ?thesis using m d by blast
qed

lemma earlyClip_new: "newClip ''clip-9'' earlyClipData = earlyClip"
  by (simp add: newClip_def earlyClipData_def earlyClip_def)

lemma addClip_early:
  "addClip ''clip-9'' ''track-1'' earlyClipData mockTimeline =
     Inr (earlyClip,
          mockTimeline\<lparr>tracks := Some [\<lparr>track_id = ''track-1'', track_type = ''video'',
                                        clips = Some (mockClips 1 @ [earlyClip])\<rparr>],
                       timeline_duration := 35\<rparr>)"
  by (simp add: addClip_def mockTimeline_def mockTracks_def earlyClip_new Let_def)
     (simp add: mockClips_def earlyClip_def)

theorem addClip_duration_witness:
  "addClip ''clip-9'' ''track-1'' earlyClipData mockTimeline =
     Inr (earlyClip,
          mockTimeline\<lparr>tracks := Some [\<lparr>track_id = ''track-1'', track_type = ''video'',
                                        clips = Some (mockClips 1 @ [earlyClip])\<rparr>],
                       timeline_duration := 35\<rparr>) \<and>
   endTime earlyClip = 10 \<and>
   Max (endTime ` set (mockClips 1 @ [earlyClip])) = 35"
proof -
  let ?tl = "mockTimeline\<lparr>tracks := Some [\<lparr>track_id = ''track-1'', track_type = ''video'',
                                        clips = Some (mockClips 1 @ [earlyClip])\<rparr>],
                       timeline_duration := 35\<rparr>"
  have e: "endTime earlyClip = 10" by (simp add: earlyClip_def)
  have ac: "allClips ?tl = mockClips 1 @ [earlyClip]"
    by (simp add: allClips_def clipsOf_def)
  then have h: "\<exists>c'\<in>set (allClips ?tl). 0 \<le> endTime c'" using e by simp
  note t = addClip_duration [OF addClip_early]
  from t h have "timeline_duration ?tl = Max (endTime ` set (allClips ?tl))" by blast
  then have "Max (endTime ` set (mockClips 1 @ [earlyClip])) = 35" by (simp add: ac)
  then show ?thesis using addClip_early e by (simp only: simp_thms)
qed

end
